theory Spec2Isabelle
  imports Main "HOL-Library.Word"
begin

unbundle bit_operations_syntax

text \<open>
  The common layer of the file system: operation events, change batches, capability
  guards, the two error taxonomies with their conversions, and fingerprints, followed by
  the duplicate command of the workspace. Each definition stands next to the source
  lines it renders; the theorems come after all definitions.
\<close>

section \<open>Resource identifiers\<close>

text \<open>
  Modelled from the spec: the class \<open>URI\<close> (\<open>@theia/core/lib/common/uri\<close>, imported by
  both source files) is not among the sources. The spec gives the resource identifier as
  an immutable, comparable, hierarchical locator (scheme + path) with equality and
  parent/child queries. The model is a scheme and the segments of the path from the root.
  \<open>toString\<close> is the canonical string. \<open>a.isEqualOrParent(b)\<close> is read as its name says,
  the way the class defines it and its callers use it
  (\<open>rootUri.isEqualOrParent(fileUri)\<close>): the receiver \<open>a\<close> is equal to \<open>b\<close> or is one of
  the ancestors of \<open>b\<close>, that is, the segments of \<open>a\<close> are the first segments of \<open>b\<close>.
\<close>

record URI =
  scheme :: string
  path :: "string list"

definition URI_toString :: "URI \<Rightarrow> string" where
  "URI_toString u = scheme u @ ''://'' @ concat (map (\<lambda>seg. CHR ''/'' # seg) (path u))"

definition URI_isEqualOrParent :: "URI \<Rightarrow> URI \<Rightarrow> bool" where
  "URI_isEqualOrParent a b =
     (scheme a = scheme b \<and> take (length (path a)) (path b) = path a)"

section \<open>Operation events (src/unnamed/part_000: FileOperation and FileOperationEvent)\<close>

text \<open>
  \<^verbatim>\<open>export const enum FileOperation { CREATE, DELETE, MOVE, COPY }\<close>
\<close>

datatype FileOperation = CREATE | DELETE | MOVE | COPY

text \<open>
  The three fields are \<open>public readonly\<close> parameter properties; \<open>target\<close> is optional.
  The metadata type \<open>FileStatWithMetadata\<close> is a type parameter: the class stores the
  value and never looks into it.
\<close>

record ('u, 't) FileOperationEvent =
  resource :: 'u
  operation :: FileOperation
  target :: "'t option"

text \<open>
  The implementation signature, whose body is empty: it stores what it is given.
  \<^verbatim>\<open>constructor(public readonly resource: URI, public readonly operation: FileOperation,\<close>
  \<^verbatim>\<open>            public readonly target?: FileStatWithMetadata) { }\<close>
\<close>

definition FileOperationEvent_impl ::
    "'u \<Rightarrow> FileOperation \<Rightarrow> 't option \<Rightarrow> ('u, 't) FileOperationEvent" where
  "FileOperationEvent_impl r op t = \<lparr>resource = r, operation = op, target = t\<rparr>"

text \<open>
  In TypeScript the implementation signature of an overloaded constructor cannot be
  called; a \<open>new FileOperationEvent(...)\<close> must match one of the two overloads:
  \<^verbatim>\<open>constructor(resource: URI, operation: FileOperation.DELETE);\<close>
  \<^verbatim>\<open>constructor(resource: URI, operation: FileOperation.CREATE | FileOperation.MOVE\<close>
  \<^verbatim>\<open>            | FileOperation.COPY, target: FileStatWithMetadata);\<close>
  A call is therefore one of four shapes, and \<open>new_FileOperationEvent\<close> runs the
  implementation on it.
\<close>

datatype ('u, 't) FileOperationEvent_call =
    New_DELETE 'u
  | New_CREATE 'u 't
  | New_MOVE 'u 't
  | New_COPY 'u 't

fun new_FileOperationEvent :: "('u, 't) FileOperationEvent_call \<Rightarrow> ('u, 't) FileOperationEvent" where
  "new_FileOperationEvent (New_DELETE r) = FileOperationEvent_impl r DELETE None"
| "new_FileOperationEvent (New_CREATE r t) = FileOperationEvent_impl r CREATE (Some t)"
| "new_FileOperationEvent (New_MOVE r t) = FileOperationEvent_impl r MOVE (Some t)"
| "new_FileOperationEvent (New_COPY r t) = FileOperationEvent_impl r COPY (Some t)"

text \<open>
  \<^verbatim>\<open>isOperation(operation: FileOperation): boolean { return this.operation === operation; }\<close>
  The only method of the class; it returns a boolean and assigns nothing.
\<close>

definition isOperation :: "('u, 't) FileOperationEvent \<Rightarrow> FileOperation \<Rightarrow> bool" where
  "isOperation ev op = (operation ev = op)"

section \<open>Change events (src/unnamed/part_000: FileChangeType, FileChange, FileChangesEvent)\<close>

text \<open>
  \<^verbatim>\<open>export const enum FileChangeType { UPDATED = 0, ADDED = 1, DELETED = 2 }\<close>
\<close>

datatype FileChangeType = UPDATED | ADDED | DELETED

text \<open>
  \<^verbatim>\<open>interface FileChange { readonly type: FileChangeType; readonly resource: URI; }\<close>
  The resource identifier is a type parameter here: the filters below never look into it.
\<close>

record 'u FileChange =
  type :: FileChangeType
  resource :: 'u

text \<open>
  \<^verbatim>\<open>class FileChangesEvent { constructor(public readonly changes: readonly FileChange[]) { } ... }\<close>
\<close>

record 'u FileChangesEvent =
  changes :: "'u FileChange list"

text \<open>
  \<^verbatim>\<open>private getOfType(type) { return this.changes.filter(change => change.type === type); }\<close>
  \<^verbatim>\<open>private hasType(type)   { return this.changes.some(change => change.type === type); }\<close>
  \<open>Array.prototype.filter\<close> builds a new array and \<open>some\<close> a boolean: both only read
  \<open>changes\<close>, so the model returns the value alone and the event is the argument, unchanged.
\<close>

definition getOfType :: "'u FileChangesEvent \<Rightarrow> FileChangeType \<Rightarrow> 'u FileChange list" where
  "getOfType ev t = filter (\<lambda>change. type change = t) (changes ev)"

definition hasType :: "'u FileChangesEvent \<Rightarrow> FileChangeType \<Rightarrow> bool" where
  "hasType ev t = list_ex (\<lambda>change. type change = t) (changes ev)"

definition getAdded :: "'u FileChangesEvent \<Rightarrow> 'u FileChange list" where
  "getAdded ev = getOfType ev ADDED"

definition gotAdded :: "'u FileChangesEvent \<Rightarrow> bool" where
  "gotAdded ev = hasType ev ADDED"

definition getDeleted :: "'u FileChangesEvent \<Rightarrow> 'u FileChange list" where
  "getDeleted ev = getOfType ev DELETED"

definition gotDeleted :: "'u FileChangesEvent \<Rightarrow> bool" where
  "gotDeleted ev = hasType ev DELETED"

definition getUpdated :: "'u FileChangesEvent \<Rightarrow> 'u FileChange list" where
  "getUpdated ev = getOfType ev UPDATED"

definition gotUpdated :: "'u FileChangesEvent \<Rightarrow> bool" where
  "gotUpdated ev = hasType ev UPDATED"

text \<open>
  \<open>contains(resource: URI, type?: FileChangeType)\<close>. \<open>None\<close> for the resource is a falsy
  argument (\<open>!resource\<close>), \<open>None\<close> for the type is an omitted one
  (\<open>typeof type === 'number'\<close> is false).
  \<^verbatim>\<open>return this.changes.some(change => {\<close>
  \<^verbatim>\<open>    if (checkForChangeType && change.type !== type) { return false; }\<close>
  \<^verbatim>\<open>    if (change.type === FileChangeType.DELETED) {\<close>
  \<^verbatim>\<open>        return resource.isEqualOrParent(change.resource);\<close>
  \<^verbatim>\<open>    }\<close>
  \<^verbatim>\<open>    return resource.toString() === change.resource.toString();\<close>
  \<^verbatim>\<open>});\<close>
  In the deleted case the receiver of \<open>isEqualOrParent\<close> is the resource asked about and
  the argument is the resource of the record.
\<close>

definition contains :: "URI FileChangesEvent \<Rightarrow> URI option \<Rightarrow> FileChangeType option \<Rightarrow> bool" where
  "contains ev res ty =
     (case res of
        None \<Rightarrow> False
      | Some r \<Rightarrow>
          (let checkForChangeType = (ty \<noteq> None)
           in list_ex
                (\<lambda>change.
                   if checkForChangeType \<and> Some (type change) \<noteq> ty then False
                   else if type change = DELETED then URI_isEqualOrParent r (resource change)
                   else URI_toString r = URI_toString (resource change))
                (changes ev)))"

section \<open>Capabilities (src/unnamed/part_000: FileSystemProviderCapabilities and the three guards)\<close>

text \<open>
  The capability set is a JavaScript number used as a bitset; \<open>&\<close> works on its 32-bit
  integer value, so the model is a 32-bit word. The enum members are written with the
  shifts of the source: \<open>1 << 1\<close>, \<open>1 << 2\<close>, \<open>1 << 3\<close>, \<open>1 << 10\<close>, \<open>1 << 11\<close>,
  \<open>1 << 12\<close>.
\<close>

type_synonym FileSystemProviderCapabilities = "32 word"

definition FileReadWrite :: FileSystemProviderCapabilities where
  "FileReadWrite = push_bit 1 1"

definition FileOpenReadWriteClose :: FileSystemProviderCapabilities where
  "FileOpenReadWriteClose = push_bit 2 1"

definition FileFolderCopy :: FileSystemProviderCapabilities where
  "FileFolderCopy = push_bit 3 1"

definition PathCaseSensitive :: FileSystemProviderCapabilities where
  "PathCaseSensitive = push_bit 10 1"

definition Readonly :: FileSystemProviderCapabilities where
  "Readonly = push_bit 11 1"

definition Trash :: FileSystemProviderCapabilities where
  "Trash = push_bit 12 1"

text \<open>
  A provider, as far as the guards read it: its \<open>capabilities\<close> field. The operations of
  the interface (stat, readdir, copy, ...) are the backend, kept abstract in \<open>'b\<close>; the
  guards have no access path to it other than the record itself.
\<close>

record 'b FileSystemProvider =
  capabilities :: FileSystemProviderCapabilities
  backend :: 'b

text \<open>
  \<^verbatim>\<open>return !!(provider.capabilities & FileSystemProviderCapabilities.FileReadWrite);\<close>
  and the same for the two other bits. \<open>!!n\<close> is true exactly when the number is not 0.
\<close>

definition hasReadWriteCapability :: "'b FileSystemProvider \<Rightarrow> bool" where
  "hasReadWriteCapability provider = (capabilities provider AND FileReadWrite \<noteq> 0)"

definition hasFileFolderCopyCapability :: "'b FileSystemProvider \<Rightarrow> bool" where
  "hasFileFolderCopyCapability provider = (capabilities provider AND FileFolderCopy \<noteq> 0)"

definition hasOpenReadWriteCloseCapability :: "'b FileSystemProvider \<Rightarrow> bool" where
  "hasOpenReadWriteCloseCapability provider =
     (capabilities provider AND FileOpenReadWriteClose \<noteq> 0)"

section \<open>Errors (src/unnamed/part_000: the two taxonomies and their conversions)\<close>

text \<open>
  \<^verbatim>\<open>export enum FileSystemProviderErrorCode { FileExists = 'EntryExists', ... }\<close>
  is a string enum: at run time a code is a string, and a \<open>code\<close> field can hold a string
  that is none of the seven members. The model keeps codes as strings, with the seven
  members as constants.
\<close>

type_synonym FileSystemProviderErrorCode = string

definition FileExists :: FileSystemProviderErrorCode where
  "FileExists = ''EntryExists''"

definition FileNotFound :: FileSystemProviderErrorCode where
  "FileNotFound = ''EntryNotFound''"

definition FileNotADirectory :: FileSystemProviderErrorCode where
  "FileNotADirectory = ''EntryNotADirectory''"

definition FileIsADirectory :: FileSystemProviderErrorCode where
  "FileIsADirectory = ''EntryIsADirectory''"

definition NoPermissions :: FileSystemProviderErrorCode where
  "NoPermissions = ''NoPermissions''"

definition Unavailable :: FileSystemProviderErrorCode where
  "Unavailable = ''Unavailable''"

definition Unknown :: FileSystemProviderErrorCode where
  "Unknown = ''Unknown''"

datatype FileOperationResult =
    FILE_IS_DIRECTORY
  | FILE_NOT_FOUND
  | FILE_NOT_MODIFIED_SINCE
  | FILE_MODIFIED_SINCE
  | FILE_MOVE_CONFLICT
  | FILE_READ_ONLY
  | FILE_PERMISSION_DENIED
  | FILE_TOO_LARGE
  | FILE_INVALID_PATH
  | FILE_EXCEEDS_MEMORY_LIMIT
  | FILE_NOT_DIRECTORY
  | FILE_OTHER_ERROR

text \<open>
  \<^verbatim>\<open>ReadFileOptions & WriteFileOptions & CreateFileOptions\<close>: the optional fields a
  \<open>FileOperationError\<close> may carry.
\<close>

record FileOperationOptions =
  opt_position :: "int option"
  opt_length :: "int option"
  opt_etag :: "string option"
  opt_mtime :: "int option"
  opt_overwrite :: "bool option"

text \<open>
  A JavaScript error object: the \<open>name\<close> and \<open>message\<close> every \<open>Error\<close> has, and the
  class it was constructed from, which is what \<open>instanceof\<close> reads. The two subclasses
  of the file carry their public fields: \<open>FileSystemProviderError.code\<close>, and
  \<open>FileOperationError.fileOperationResult\<close> with \<open>options\<close>.
\<close>

datatype ErrorClass =
    PlainError
  | FileSystemProviderError FileSystemProviderErrorCode
  | FileOperationError FileOperationResult "FileOperationOptions option"

record Error =
  name :: string
  message :: string
  cls :: ErrorClass

text \<open>
  \<open>error instanceof FileSystemProviderError\<close> and \<open>error instanceof FileOperationError\<close>.
  Neither class extends the other.
\<close>

definition instanceof_FileSystemProviderError :: "Error \<Rightarrow> bool" where
  "instanceof_FileSystemProviderError error =
     (case cls error of FileSystemProviderError _ \<Rightarrow> True | _ \<Rightarrow> False)"

definition instanceof_FileOperationError :: "Error \<Rightarrow> bool" where
  "instanceof_FileOperationError error =
     (case cls error of FileOperationError _ _ \<Rightarrow> True | _ \<Rightarrow> False)"

text \<open>
  The seven members of \<open>FileSystemProviderErrorCode\<close>, in the order of the enum.
\<close>

definition memberCodes :: "FileSystemProviderErrorCode list" where
  "memberCodes =
     [FileExists, FileNotFound, FileNotADirectory, FileIsADirectory, NoPermissions,
      Unavailable, Unknown]"

text \<open>
  \<^verbatim>\<open>error.name = code ? `${code} (FileSystemError)` : 'FileSystemError'; return error;\<close>
  A string is falsy exactly when it is empty. The assignment changes the name alone: a
  \<open>FileSystemProviderError\<close> keeps its readonly \<open>code\<close>.
\<close>

definition markAsFileSystemProviderError :: "Error \<Rightarrow> FileSystemProviderErrorCode \<Rightarrow> Error" where
  "markAsFileSystemProviderError error code =
     error\<lparr>name := (if code \<noteq> [] then code @ '' (FileSystemError)'' else ''FileSystemError'')\<rparr>"

text \<open>
  \<open>Error.prototype.toString\<close>: the name, the message, or \<open>name: message\<close> when neither
  is empty. \<open>createFileSystemProviderError\<close> takes an error or a string (\<open>Inl\<close>, \<open>Inr\<close>);
  a new error object has the inherited name \<open>Error\<close>.
\<close>

definition Error_toString :: "Error \<Rightarrow> string" where
  "Error_toString error =
     (if name error = [] then message error
      else if message error = [] then name error
      else name error @ '': '' @ message error)"

definition createFileSystemProviderError ::
    "Error + string \<Rightarrow> FileSystemProviderErrorCode \<Rightarrow> Error" where
  "createFileSystemProviderError error code =
     (let providerError =
            \<lparr>name = ''Error'',
             message = (case error of Inl e \<Rightarrow> Error_toString e | Inr s \<Rightarrow> s),
             cls = FileSystemProviderError code\<rparr>
      in markAsFileSystemProviderError providerError code)"

definition ensureFileSystemProviderError :: "Error option \<Rightarrow> Error" where
  "ensureFileSystemProviderError error =
     (case error of
        None \<Rightarrow> createFileSystemProviderError (Inr ''Unknown Error'') Unknown
      | Some e \<Rightarrow> e)"

text \<open>
  \<^verbatim>\<open>/^(.+) \(FileSystemError\)$/.exec(error.name)\<close>, with no flag: the whole name is one
  or more characters other than line terminators, followed by \<open> (FileSystemError)\<close>.
  The suffix is anchored at the end, so group 1 is everything before it. The result is
  group 1, or \<open>None\<close> for no match. Characters are bytes here: of the line terminators
  of JavaScript, line feed and carriage return are single characters.
\<close>

definition is_line_terminator :: "char \<Rightarrow> bool" where
  "is_line_terminator c = (c = CHR 0x0A \<or> c = CHR 0x0D)"

definition exec_FileSystemError :: "string \<Rightarrow> string option" where
  "exec_FileSystemError s =
     (let suffix = '' (FileSystemError)'';
          n = length s - length suffix;
          group1 = take n s
      in if length suffix < length s \<and> drop n s = suffix \<and> \<not> list_ex is_line_terminator group1
         then Some group1 else None)"

text \<open>
  \<open>toFileSystemProviderErrorCode(error: Error | undefined | null)\<close>: \<open>None\<close> is
  \<open>undefined\<close> or \<open>null\<close>. The \<open>switch\<close> compares group 1 with six members in the
  order of the source; \<open>Unknown\<close> has no case and is the value after the switch.
\<close>

definition toFileSystemProviderErrorCode :: "Error option \<Rightarrow> FileSystemProviderErrorCode" where
  "toFileSystemProviderErrorCode error =
     (case error of
        None \<Rightarrow> Unknown
      | Some e \<Rightarrow>
          (case cls e of
             FileSystemProviderError code \<Rightarrow> code
           | _ \<Rightarrow>
               (case exec_FileSystemError (name e) of
                  None \<Rightarrow> Unknown
                | Some m \<Rightarrow>
                    if m = FileExists then FileExists
                    else if m = FileIsADirectory then FileIsADirectory
                    else if m = FileNotADirectory then FileNotADirectory
                    else if m = FileNotFound then FileNotFound
                    else if m = NoPermissions then NoPermissions
                    else if m = Unavailable then Unavailable
                    else Unknown)))"

text \<open>
  \<open>toFileOperationResult(error: Error)\<close>: a \<open>FileOperationError\<close> gives its own result;
  any other error goes through the switch over its provider code, with a default.
\<close>

definition toFileOperationResult :: "Error \<Rightarrow> FileOperationResult" where
  "toFileOperationResult error =
     (case cls error of
        FileOperationError r _ \<Rightarrow> r
      | _ \<Rightarrow>
          (let c = toFileSystemProviderErrorCode (Some error)
           in if c = FileNotFound then FILE_NOT_FOUND
              else if c = FileIsADirectory then FILE_IS_DIRECTORY
              else if c = FileNotADirectory then FILE_NOT_DIRECTORY
              else if c = NoPermissions then FILE_PERMISSION_DENIED
              else if c = FileExists then FILE_MOVE_CONFLICT
              else FILE_OTHER_ERROR))"

section \<open>Fingerprints (src/unnamed/part_000: ETAG_DISABLED and etag)\<close>

text \<open>
  The numbers of a stat are sizes in bytes and times in milliseconds: integers, held in
  JavaScript numbers. The model has the integers and the three values of type \<open>number\<close>
  that are not finite; numbers with a fractional part are not modelled. A JavaScript number
  is a double: it holds every integer of magnitude below \<open>2^53 = 9007199254740992\<close>
  exactly, and there the digits below are the digits the engine prints. From \<open>2^53\<close> on
  the engine rounds, so statements about digits are made for integers below \<open>2^53\<close> only.
\<close>

datatype number = Integer int | NaN | Infinity | NegInfinity

text \<open>
  \<open>Number.prototype.toString(radix)\<close> on these values: the digits \<open>0-9a-z\<close>, the most
  significant first, no leading zero, a minus sign for a negative number, and the fixed
  words for the values that are not finite. JavaScript accepts a radix from 2 to 36 and
  \<open>etag\<close> calls it with 29 and 31; \<open>digits_of\<close> with another radix is not meant.
\<close>

definition digit_chars :: string where
  "digit_chars = ''0123456789abcdefghijklmnopqrstuvwxyz''"

definition digit_char :: "nat \<Rightarrow> char" where
  "digit_char d = digit_chars ! d"

function digits_of :: "nat \<Rightarrow> nat \<Rightarrow> string" where
  "digits_of radix n =
     (if radix < 2 \<or> n < radix then [digit_char n]
      else digits_of radix (n div radix) @ [digit_char (n mod radix)])"
  by pat_completeness auto
termination
  by (relation "measure (\<lambda>(radix, n). n)") auto

definition Number_toString :: "nat \<Rightarrow> number \<Rightarrow> string" where
  "Number_toString radix x =
     (case x of
        Integer i \<Rightarrow>
          if i < 0 then CHR ''-'' # digits_of radix (nat (- i)) else digits_of radix (nat i)
      | NaN \<Rightarrow> ''NaN''
      | Infinity \<Rightarrow> ''Infinity''
      | NegInfinity \<Rightarrow> ''-Infinity'')"

text \<open>
  \<^verbatim>\<open>export const ETAG_DISABLED = '';\<close>
\<close>

definition ETAG_DISABLED :: string where
  "ETAG_DISABLED = []"

text \<open>
  The argument of \<open>etag\<close>: \<open>{ mtime: number | undefined, size: number | undefined }\<close>
  (\<open>size\<close> is a constant of HOL, so the field is \<open>size_stat\<close>). \<open>None\<close> is a field that is
  not a number; the result \<open>None\<close> is \<open>undefined\<close>.
  \<^verbatim>\<open>if (typeof stat.size !== 'number' || typeof stat.mtime !== 'number') { return undefined; }\<close>
  \<^verbatim>\<open>return stat.mtime.toString(29) + stat.size.toString(31);\<close>
\<close>

record EtagStat =
  mtime :: "number option"
  size_stat :: "number option"

definition etag :: "EtagStat \<Rightarrow> string option" where
  "etag stat =
     (case size_stat stat of
        None \<Rightarrow> None
      | Some sz \<Rightarrow>
          (case mtime stat of
             None \<Rightarrow> None
           | Some mt \<Rightarrow> Some (Number_toString 29 mt @ Number_toString 31 sz)))"

section \<open>Duplicate command (workspace-duplicate-handler.ts, execute)\<close>

text \<open>
  A promise that has settled: fulfilled with a value or rejected with an error. A call
  either throws at once or returns a value.
\<close>

datatype ('e, 'a) settled = Fulfilled 'a | Rejected 'e

datatype ('e, 'a) call_result = Throws 'e | Returns 'a

text \<open>
  What \<open>execute\<close> calls and does not define: the getters of \<open>URI\<close> (\<open>parent\<close>,
  \<open>path.name\<close>, \<open>path.ext\<close>), \<open>FileService.resolve\<close> (awaited, so a throw and a
  rejection are the same to the caller; its value may be falsy, which \<open>if (parent)\<close>
  tests), the \<open>resource\<close> of a stat, \<open>FileSystemUtils.generateUniqueResourceURI\<close>, and
  \<open>WorkingCopyFileService.copy\<close>, which may throw at the call or return a promise that
  settles later. They are parameters, each a function of its arguments.
\<close>

record ('u, 's, 'e) DuplicateServices =
  uri_parent :: "'u \<Rightarrow> 'u"
  uri_path_name :: "'u \<Rightarrow> string"
  uri_path_ext :: "'u \<Rightarrow> string"
  fileService_resolve :: "'u \<Rightarrow> ('e, 's option) settled"
  stat_resource :: "'s \<Rightarrow> 'u"
  generateUniqueResourceURI :: "'u \<Rightarrow> 's \<Rightarrow> string \<Rightarrow> string \<Rightarrow> 'u"
  workingCopyFileService_copy :: "'u \<Rightarrow> 'u \<Rightarrow> ('e, ('e, unit) settled) call_result"

text \<open>
  What a run leaves behind: how the promise returned by \<open>execute\<close> (or by one callback)
  settles, the calls of \<open>copy\<close> that were made, the errors passed to \<open>console.error\<close>, and
  the rejections of promises that nothing awaits or catches.
\<close>

record ('u, 'e) Run =
  outcome :: "('e, unit) settled"
  copy_calls :: "('u \<times> 'u) list"
  console_error :: "'e list"
  unhandled_rejections :: "'e list"

text \<open>
  The callback of \<open>uris.map\<close>, for one uri:
  \<^verbatim>\<open>const parent = await this.fileService.resolve(uri.parent, {...});\<close>
  \<^verbatim>\<open>if (parent) {\<close>
  \<^verbatim>\<open>    const parentUri = parent.resource;\<close>
  \<^verbatim>\<open>    const name = uri.path.name + '_copy';\<close>
  \<^verbatim>\<open>    const ext = uri.path.ext;\<close>
  \<^verbatim>\<open>    const target = FileSystemUtils.generateUniqueResourceURI(parentUri, parent, name, ext);\<close>
  \<^verbatim>\<open>    try { this.workingCopyFileService.copy(uri, target); } catch (e) { console.error(e); }\<close>
  \<^verbatim>\<open>}\<close>
  The \<open>await\<close> is outside the \<open>try\<close>: a rejected \<open>resolve\<close> rejects the callback. The
  call of \<open>copy\<close> is inside the \<open>try\<close> and its result is dropped without \<open>await\<close>: the
  \<open>catch\<close> sees a throw of the call itself, and a promise that \<open>copy\<close> returns settles
  with nobody listening.
\<close>

definition duplicate_one :: "('u, 's, 'e) DuplicateServices \<Rightarrow> 'u \<Rightarrow> ('u, 'e) Run" where
  "duplicate_one svc uri =
     (case fileService_resolve svc (uri_parent svc uri) of
        Rejected e \<Rightarrow>
          \<lparr>outcome = Rejected e, copy_calls = [], console_error = [], unhandled_rejections = []\<rparr>
      | Fulfilled None \<Rightarrow>
          \<lparr>outcome = Fulfilled (), copy_calls = [], console_error = [], unhandled_rejections = []\<rparr>
      | Fulfilled (Some parent) \<Rightarrow>
          (let parentUri = stat_resource svc parent;
               name = uri_path_name svc uri @ ''_copy'';
               ext = uri_path_ext svc uri;
               target = generateUniqueResourceURI svc parentUri parent name ext
           in case workingCopyFileService_copy svc uri target of
                Throws e \<Rightarrow>
                  \<lparr>outcome = Fulfilled (), copy_calls = [(uri, target)], console_error = [e],
                   unhandled_rejections = []\<rparr>
              | Returns (Rejected e) \<Rightarrow>
                  \<lparr>outcome = Fulfilled (), copy_calls = [(uri, target)], console_error = [],
                   unhandled_rejections = [e]\<rparr>
              | Returns (Fulfilled _) \<Rightarrow>
                  \<lparr>outcome = Fulfilled (), copy_calls = [(uri, target)], console_error = [],
                   unhandled_rejections = []\<rparr>))"

text \<open>
  \<^verbatim>\<open>await Promise.all(uris.map(async uri => { ... }));\<close>
  \<open>map\<close> starts every callback, and \<open>Promise.all\<close> stops none of them: it is fulfilled
  when all are, and rejected as soon as one is. The effects are listed in the order of
  \<open>uris\<close>; of several rejected callbacks the model reports the first of that order.
\<close>

fun Promise_all :: "('e, unit) settled list \<Rightarrow> ('e, unit) settled" where
  "Promise_all [] = Fulfilled ()"
| "Promise_all (Rejected e # ps) = Rejected e"
| "Promise_all (Fulfilled _ # ps) = Promise_all ps"

definition execute :: "('u, 's, 'e) DuplicateServices \<Rightarrow> 'u list \<Rightarrow> ('u, 'e) Run" where
  "execute svc uris =
     (let runs = map (duplicate_one svc) uris
      in \<lparr>outcome = Promise_all (map outcome runs),
          copy_calls = concat (map copy_calls runs),
          console_error = concat (map console_error runs),
          unhandled_rejections = concat (map unhandled_rejections runs)\<rparr>)"

section \<open>Example inputs\<close>

text \<open>
  A batch with one record: the folder \<open>file:///a/b\<close> was deleted.
\<close>

definition uri_a :: URI where
  "uri_a = \<lparr>scheme = ''file'', path = [''a'']\<rparr>"

definition uri_a_b :: URI where
  "uri_a_b = \<lparr>scheme = ''file'', path = [''a'', ''b'']\<rparr>"

definition uri_a_b_c :: URI where
  "uri_a_b_c = \<lparr>scheme = ''file'', path = [''a'', ''b'', ''c'']\<rparr>"

definition deleted_a_b :: "URI FileChangesEvent" where
  "deleted_a_b = \<lparr>changes = [\<lparr>type = DELETED, resource = uri_a_b\<rparr>]\<rparr>"

text \<open>
  Two sibling files to duplicate, and services for them: every parent resolves (a stat is
  stood for by its resource), the name and the extension are split at the first dot of the
  last segment, the unique name is the given name in the parent, and \<open>copy\<close>
  returns a promise, which is rejected with a NoPermissions provider error for
  \<open>a.txt\<close> and fulfilled for every other file. A provider reports a failed copy this way:
  \<open>FileSystemProvider.copy\<close> returns \<open>Promise<void>\<close>.
\<close>

definition file_a :: URI where
  "file_a = \<lparr>scheme = ''file'', path = [''w'', ''a.txt'']\<rparr>"

definition file_b :: URI where
  "file_b = \<lparr>scheme = ''file'', path = [''w'', ''b.txt'']\<rparr>"

definition permission_denied :: Error where
  "permission_denied =
     createFileSystemProviderError (Inr ''EACCES: permission denied'') NoPermissions"

definition services_rejecting_a :: "(URI, URI, Error) DuplicateServices" where
  "services_rejecting_a =
     \<lparr>uri_parent = (\<lambda>u. u\<lparr>path := butlast (path u)\<rparr>),
      uri_path_name = (\<lambda>u. takeWhile (\<lambda>c. c \<noteq> CHR ''.'') (last (path u))),
      uri_path_ext = (\<lambda>u. dropWhile (\<lambda>c. c \<noteq> CHR ''.'') (last (path u))),
      fileService_resolve = (\<lambda>u. Fulfilled (Some u)),
      stat_resource = (\<lambda>s. s),
      generateUniqueResourceURI = (\<lambda>p s n e. p\<lparr>path := path p @ [n @ e]\<rparr>),
      workingCopyFileService_copy =
        (\<lambda>from to. if from = file_a then Returns (Rejected permission_denied)
                    else Returns (Fulfilled ()))\<rparr>"

text \<open>
  The same services with a \<open>copy\<close> that throws at the call for \<open>a.txt\<close>.
\<close>

definition services_throwing_a :: "(URI, URI, Error) DuplicateServices" where
  "services_throwing_a =
     services_rejecting_a
       \<lparr>workingCopyFileService_copy :=
          (\<lambda>from to. if from = file_a then Throws permission_denied
                      else Returns (Fulfilled ()))\<rparr>"

section \<open>Theorems\<close>

subsection \<open>Change batches: existence checks against filters\<close>

lemma list_ex_filter_nonempty: "list_ex P xs \<longleftrightarrow> filter P xs \<noteq> []"
  by (induction xs) auto

lemma hasType_getOfType: "hasType ev t \<longleftrightarrow> getOfType ev t \<noteq> []"
  by (simp add: hasType_def getOfType_def list_ex_filter_nonempty)

text \<open>
  C10. For every change batch and every kind K of Added, Deleted, Updated, \<open>gotK()\<close> is
  true exactly when \<open>getK()\<close> is a non-empty list. Both are functions of the record list
  alone and return no event, so the batch after the call is the batch before it.
\<close>

theorem got_iff_get_nonempty:
  "(gotAdded ev \<longleftrightarrow> getAdded ev \<noteq> []) \<and>
   (gotDeleted ev \<longleftrightarrow> getDeleted ev \<noteq> []) \<and>
   (gotUpdated ev \<longleftrightarrow> getUpdated ev \<noteq> [])"
  by (simp add: gotAdded_def getAdded_def gotDeleted_def getDeleted_def
      gotUpdated_def getUpdated_def hasType_getOfType)

subsection \<open>Capability guards\<close>

lemma and_push_bit_1_iff: "(w :: 32 word) AND push_bit n 1 \<noteq> 0 \<longleftrightarrow> bit w n"
  by (simp add: and_exp_eq_0_iff_not_bit)

text \<open>
  C5. Each of the three guards answers true exactly when its own bit of the provider's
  capability set is on (bit 1 for FileReadWrite, bit 2 for FileOpenReadWriteClose, bit 3
  for FileFolderCopy), and false exactly when it is off. The answer depends on the
  \<open>capabilities\<close> field only: two providers with the same bitset get the same answer
  whatever their backends are.
\<close>

theorem capability_guards_test_their_bit:
  "(hasReadWriteCapability p \<longleftrightarrow> bit (capabilities p) 1) \<and>
   (hasOpenReadWriteCloseCapability p \<longleftrightarrow> bit (capabilities p) 2) \<and>
   (hasFileFolderCopyCapability p \<longleftrightarrow> bit (capabilities p) 3) \<and>
   hasReadWriteCapability (p\<lparr>backend := b\<rparr>) = hasReadWriteCapability p \<and>
   hasOpenReadWriteCloseCapability (p\<lparr>backend := b\<rparr>) = hasOpenReadWriteCloseCapability p \<and>
   hasFileFolderCopyCapability (p\<lparr>backend := b\<rparr>) = hasFileFolderCopyCapability p"
proof -
  have rw: "hasReadWriteCapability p \<longleftrightarrow> bit (capabilities p) 1"
    unfolding hasReadWriteCapability_def FileReadWrite_def by (rule and_push_bit_1_iff)
  have orwc: "hasOpenReadWriteCloseCapability p \<longleftrightarrow> bit (capabilities p) 2"
    unfolding hasOpenReadWriteCloseCapability_def FileOpenReadWriteClose_def
    by (rule and_push_bit_1_iff)
  have cp: "hasFileFolderCopyCapability p \<longleftrightarrow> bit (capabilities p) 3"
    unfolding hasFileFolderCopyCapability_def FileFolderCopy_def by (rule and_push_bit_1_iff)
  have same: "hasReadWriteCapability (p\<lparr>backend := b\<rparr>) = hasReadWriteCapability p"
    "hasOpenReadWriteCloseCapability (p\<lparr>backend := b\<rparr>) = hasOpenReadWriteCloseCapability p"
    "hasFileFolderCopyCapability (p\<lparr>backend := b\<rparr>) = hasFileFolderCopyCapability p"
    by (simp_all add: hasReadWriteCapability_def hasOpenReadWriteCloseCapability_def
        hasFileFolderCopyCapability_def)
  from rw orwc cp same show ?thesis by blast
qed

subsection \<open>Error codes: extraction and classification\<close>

lemmas code_defs = FileExists_def FileNotFound_def FileNotADirectory_def FileIsADirectory_def
  NoPermissions_def Unavailable_def Unknown_def

lemma exec_marked:
  "\<not> list_ex is_line_terminator c \<Longrightarrow> c \<noteq> [] \<Longrightarrow>
   exec_FileSystemError (c @ '' (FileSystemError)'') = Some c"
  by (simp add: exec_FileSystemError_def)

lemma exec_Some: "exec_FileSystemError s = Some m \<Longrightarrow> s = m @ '' (FileSystemError)''"
  unfolding exec_FileSystemError_def Let_def
  by (metis append_take_drop_id option.distinct(1) option.inject)

lemma exec_member:
  "c \<in> set memberCodes \<Longrightarrow> exec_FileSystemError (c @ '' (FileSystemError)'') = Some c"
  by (rule exec_marked) (auto simp: memberCodes_def code_defs is_line_terminator_def)

lemma switch_member:
  "c \<in> set memberCodes \<Longrightarrow>
   (if c = FileExists then FileExists
    else if c = FileIsADirectory then FileIsADirectory
    else if c = FileNotADirectory then FileNotADirectory
    else if c = FileNotFound then FileNotFound
    else if c = NoPermissions then NoPermissions
    else if c = Unavailable then Unavailable
    else Unknown) = c"
  by (auto simp: memberCodes_def)

lemma toCode_structured:
  "cls e = FileSystemProviderError c \<Longrightarrow> toFileSystemProviderErrorCode (Some e) = c"
  by (simp add: toFileSystemProviderErrorCode_def)

lemma toCode_by_name:
  "\<not> instanceof_FileSystemProviderError e \<Longrightarrow>
   toFileSystemProviderErrorCode (Some e) =
     (case exec_FileSystemError (name e) of
        None \<Rightarrow> Unknown
      | Some m \<Rightarrow>
          if m = FileExists then FileExists
          else if m = FileIsADirectory then FileIsADirectory
          else if m = FileNotADirectory then FileNotADirectory
          else if m = FileNotFound then FileNotFound
          else if m = NoPermissions then NoPermissions
          else if m = Unavailable then Unavailable
          else Unknown)"
  by (cases "cls e")
     (simp_all add: toFileSystemProviderErrorCode_def instanceof_FileSystemProviderError_def)

lemma toCode_marked_name:
  assumes "\<not> instanceof_FileSystemProviderError e"
    and "c \<in> set memberCodes" and "name e = c @ '' (FileSystemError)''"
  shows "toFileSystemProviderErrorCode (Some e) = c"
proof -
  have "exec_FileSystemError (name e) = Some c"
    using assms(2,3) by (simp add: exec_member)
  then show ?thesis
    using switch_member [OF assms(2)] by (simp add: toCode_by_name [OF assms(1)])
qed

lemma toCode_unmarked:
  assumes "\<not> instanceof_FileSystemProviderError e"
    and "\<And>c. c \<in> set memberCodes \<Longrightarrow> name e \<noteq> c @ '' (FileSystemError)''"
  shows "toFileSystemProviderErrorCode (Some e) = Unknown"
proof (cases "exec_FileSystemError (name e)")
  case None
  then show ?thesis by (simp add: toCode_by_name [OF assms(1)])
next
  case (Some m)
  then have "name e = m @ '' (FileSystemError)''" by (rule exec_Some)
  with assms(2) have "m \<notin> set memberCodes" by blast
  then have "m \<noteq> FileExists" "m \<noteq> FileIsADirectory" "m \<noteq> FileNotADirectory"
    "m \<noteq> FileNotFound" "m \<noteq> NoPermissions" "m \<noteq> Unavailable"
    by (auto simp: memberCodes_def)
  then show ?thesis using Some by (simp add: toCode_by_name [OF assms(1)])
qed

text \<open>
  C6. \<open>toFileSystemProviderErrorCode\<close> is a total function: every input, \<open>undefined\<close> and
  \<open>null\<close> included, gets a code, and there is no failing branch. For \<open>undefined\<close>/\<open>null\<close>
  the code is \<open>Unknown\<close>. A \<open>FileSystemProviderError\<close> gives its \<open>code\<close> field, whatever
  its name says (structured first). Any other error whose name is a member code followed by
  \<open> (FileSystemError)\<close> gives that member (pattern on the name). Any other error whose name
  is no such marking gives \<open>Unknown\<close>.
\<close>

theorem toFileSystemProviderErrorCode_extraction:
  "toFileSystemProviderErrorCode None = Unknown \<and>
   (cls e = FileSystemProviderError c \<longrightarrow> toFileSystemProviderErrorCode (Some e) = c) \<and>
   (\<not> instanceof_FileSystemProviderError e \<and> c \<in> set memberCodes \<and>
      name e = c @ '' (FileSystemError)'' \<longrightarrow> toFileSystemProviderErrorCode (Some e) = c) \<and>
   (\<not> instanceof_FileSystemProviderError e \<and>
      (\<forall>c'\<in>set memberCodes. name e \<noteq> c' @ '' (FileSystemError)'') \<longrightarrow>
      toFileSystemProviderErrorCode (Some e) = Unknown)"
proof -
  have "toFileSystemProviderErrorCode None = Unknown"
    by (simp add: toFileSystemProviderErrorCode_def)
  then show ?thesis
    using toCode_structured [of e c] toCode_marked_name [of e c] toCode_unmarked [of e]
    by blast
qed

theorem toFileSystemProviderErrorCode_extraction_witness:
  "toFileSystemProviderErrorCode
     (Some \<lparr>name = ''TypeError'', message = ''x is not a function'', cls = PlainError\<rparr>)
     = Unknown \<and>
   toFileSystemProviderErrorCode
     (Some \<lparr>name = ''Error'', message = ''gone'', cls = FileSystemProviderError NoPermissions\<rparr>)
     = NoPermissions \<and>
   toFileSystemProviderErrorCode
     (Some \<lparr>name = ''Unavailable (FileSystemError)'', message = ''busy'', cls = PlainError\<rparr>)
     = Unavailable"
  using
    toFileSystemProviderErrorCode_extraction
      [of "\<lparr>name = ''TypeError'', message = ''x is not a function'', cls = PlainError\<rparr>"]
    toFileSystemProviderErrorCode_extraction
      [of "\<lparr>name = ''Error'', message = ''gone'', cls = FileSystemProviderError NoPermissions\<rparr>"
          NoPermissions]
    toFileSystemProviderErrorCode_extraction
      [of "\<lparr>name = ''Unavailable (FileSystemError)'', message = ''busy'', cls = PlainError\<rparr>"
          Unavailable]
  by (simp add: instanceof_FileSystemProviderError_def memberCodes_def code_defs)

text \<open>
  C1. \<open>toFileOperationResult\<close> is a function, so every error gets exactly one result, and
  it has no failing branch. A \<open>FileOperationError\<close> gives its own \<open>fileOperationResult\<close>.
  Any other error is classified from the code \<open>c\<close> that \<open>toFileSystemProviderErrorCode\<close>
  extracts: FileNotFound gives FILE_NOT_FOUND, FileIsADirectory gives FILE_IS_DIRECTORY,
  FileNotADirectory gives FILE_NOT_DIRECTORY, NoPermissions gives FILE_PERMISSION_DENIED,
  FileExists gives FILE_MOVE_CONFLICT, and every other string (Unavailable, Unknown, a
  code that is no member of the enum) gives FILE_OTHER_ERROR.
\<close>

theorem toFileOperationResult_table:
  "(cls e = FileOperationError r opts \<longrightarrow> toFileOperationResult e = r) \<and>
   (\<not> instanceof_FileOperationError e \<longrightarrow>
      (let c = toFileSystemProviderErrorCode (Some e) in
         (c = FileNotFound \<longrightarrow> toFileOperationResult e = FILE_NOT_FOUND) \<and>
         (c = FileIsADirectory \<longrightarrow> toFileOperationResult e = FILE_IS_DIRECTORY) \<and>
         (c = FileNotADirectory \<longrightarrow> toFileOperationResult e = FILE_NOT_DIRECTORY) \<and>
         (c = NoPermissions \<longrightarrow> toFileOperationResult e = FILE_PERMISSION_DENIED) \<and>
         (c = FileExists \<longrightarrow> toFileOperationResult e = FILE_MOVE_CONFLICT) \<and>
         (c \<notin> {FileNotFound, FileIsADirectory, FileNotADirectory, NoPermissions, FileExists}
            \<longrightarrow> toFileOperationResult e = FILE_OTHER_ERROR)))"
proof -
  have d: "distinct [FileNotFound, FileIsADirectory, FileNotADirectory, NoPermissions, FileExists]"
    by (simp add: code_defs)
  show ?thesis
    using d
    by (cases "cls e")
       (auto simp: toFileOperationResult_def instanceof_FileOperationError_def Let_def)
qed

theorem toFileOperationResult_table_witness:
  "toFileOperationResult
     \<lparr>name = ''Error'', message = ''too big'', cls = FileOperationError FILE_TOO_LARGE None\<rparr>
     = FILE_TOO_LARGE \<and>
   toFileOperationResult
     \<lparr>name = ''EntryNotFound (FileSystemError)'', message = ''gone'', cls = PlainError\<rparr>
     = FILE_NOT_FOUND \<and>
   toFileOperationResult
     \<lparr>name = ''Error'', message = ''dir'', cls = FileSystemProviderError FileIsADirectory\<rparr>
     = FILE_IS_DIRECTORY \<and>
   toFileOperationResult
     \<lparr>name = ''EntryNotADirectory (FileSystemError)'', message = ''file'', cls = PlainError\<rparr>
     = FILE_NOT_DIRECTORY \<and>
   toFileOperationResult
     \<lparr>name = ''Error'', message = ''no'', cls = FileSystemProviderError NoPermissions\<rparr>
     = FILE_PERMISSION_DENIED \<and>
   toFileOperationResult
     \<lparr>name = ''EntryExists (FileSystemError)'', message = ''there'', cls = PlainError\<rparr>
     = FILE_MOVE_CONFLICT \<and>
   toFileOperationResult
     \<lparr>name = ''Error'', message = ''odd'', cls = FileSystemProviderError ''Quota''\<rparr>
     = FILE_OTHER_ERROR \<and>
   toFileOperationResult
     \<lparr>name = ''Unavailable (FileSystemError)'', message = ''busy'', cls = PlainError\<rparr>
     = FILE_OTHER_ERROR \<and>
   toFileOperationResult
     \<lparr>name = ''TypeError'', message = ''x is not a function'', cls = PlainError\<rparr>
     = FILE_OTHER_ERROR"
  using
    toFileOperationResult_table
      [of "\<lparr>name = ''Error'', message = ''too big'', cls = FileOperationError FILE_TOO_LARGE None\<rparr>"
          FILE_TOO_LARGE None]
    toFileOperationResult_table
      [of "\<lparr>name = ''EntryNotFound (FileSystemError)'', message = ''gone'', cls = PlainError\<rparr>"]
    toFileOperationResult_table
      [of "\<lparr>name = ''Error'', message = ''dir'', cls = FileSystemProviderError FileIsADirectory\<rparr>"]
    toFileOperationResult_table
      [of "\<lparr>name = ''EntryNotADirectory (FileSystemError)'', message = ''file'', cls = PlainError\<rparr>"]
    toFileOperationResult_table
      [of "\<lparr>name = ''Error'', message = ''no'', cls = FileSystemProviderError NoPermissions\<rparr>"]
    toFileOperationResult_table
      [of "\<lparr>name = ''EntryExists (FileSystemError)'', message = ''there'', cls = PlainError\<rparr>"]
    toFileOperationResult_table
      [of "\<lparr>name = ''Error'', message = ''odd'', cls = FileSystemProviderError ''Quota''\<rparr>"]
    toFileOperationResult_table
      [of "\<lparr>name = ''Unavailable (FileSystemError)'', message = ''busy'', cls = PlainError\<rparr>"]
    toFileOperationResult_table
      [of "\<lparr>name = ''TypeError'', message = ''x is not a function'', cls = PlainError\<rparr>"]
  by (simp add: instanceof_FileOperationError_def toFileSystemProviderErrorCode_def
      exec_FileSystemError_def is_line_terminator_def code_defs)

text \<open>
  C7. Mark any error with the code FileNotFound. Whatever error object arrives at the other
  end of a channel that keeps the name and drops the \<open>FileSystemProviderError\<close> class
  (\<open>e'\<close>: same name, not an instance of that class), extraction gives FileNotFound; in
  particular for the plain \<open>Error\<close> with the marked error's name and message.
\<close>

theorem mark_strip_extract_FileNotFound:
  "(\<not> instanceof_FileSystemProviderError e' \<and>
    name e' = name (markAsFileSystemProviderError e FileNotFound) \<longrightarrow>
    toFileSystemProviderErrorCode (Some e') = FileNotFound) \<and>
   toFileSystemProviderErrorCode
     (Some \<lparr>name = name (markAsFileSystemProviderError e FileNotFound),
            message = message (markAsFileSystemProviderError e FileNotFound),
            cls = PlainError\<rparr>) = FileNotFound"
proof -
  have n: "name (markAsFileSystemProviderError e FileNotFound)
             = FileNotFound @ '' (FileSystemError)''"
    by (simp add: markAsFileSystemProviderError_def FileNotFound_def)
  have m: "FileNotFound \<in> set memberCodes" by (simp add: memberCodes_def)
  have general: "toFileSystemProviderErrorCode (Some x) = FileNotFound"
    if "\<not> instanceof_FileSystemProviderError x"
      and "name x = name (markAsFileSystemProviderError e FileNotFound)" for x
    using that n toCode_marked_name [OF _ m, of x] by simp
  show ?thesis
    using general [of e'] general [of "\<lparr>name = name (markAsFileSystemProviderError e FileNotFound),
            message = message (markAsFileSystemProviderError e FileNotFound),
            cls = PlainError\<rparr>"]
    by (simp add: instanceof_FileSystemProviderError_def)
qed

theorem mark_strip_extract_FileNotFound_witness:
  "toFileSystemProviderErrorCode
     (Some \<lparr>name = ''EntryNotFound (FileSystemError)'', message = ''ENOENT: /a/b'',
            cls = FileOperationError FILE_OTHER_ERROR None\<rparr>) = FileNotFound"
  using mark_strip_extract_FileNotFound
    [of "\<lparr>name = ''EntryNotFound (FileSystemError)'', message = ''ENOENT: /a/b'',
           cls = FileOperationError FILE_OTHER_ERROR None\<rparr>"
        "\<lparr>name = ''Error'', message = ''ENOENT: /a/b'',
           cls = FileSystemProviderError FileNotFound\<rparr>"]
  by (simp add: instanceof_FileSystemProviderError_def markAsFileSystemProviderError_def
      FileNotFound_def)

subsection \<open>Fingerprints\<close>

lemma distinct_digit_chars: "distinct digit_chars"
  by (simp add: digit_chars_def)

lemma length_digit_chars: "length digit_chars = 36"
  by (simp add: digit_chars_def)

lemma digit_char_inj: "a < 36 \<Longrightarrow> b < 36 \<Longrightarrow> digit_char a = digit_char b \<Longrightarrow> a = b"
  unfolding digit_char_def
  using distinct_digit_chars length_digit_chars by (simp add: nth_eq_iff_index_eq)

lemma digit_char_in: "d < 36 \<Longrightarrow> digit_char d \<in> set digit_chars"
  unfolding digit_char_def using length_digit_chars by simp

lemma mod_lt_36: "2 \<le> r \<Longrightarrow> r \<le> 36 \<Longrightarrow> n mod r < (36::nat)"
proof -
  assume "2 \<le> r" "r \<le> 36"
  then have "n mod r < r" by simp
  with \<open>r \<le> 36\<close> show ?thesis by simp
qed

lemma digits_of_nonempty: "digits_of r n \<noteq> []"
  by (subst digits_of.simps) simp

declare digits_of.simps [simp del]

lemma digits_of_chars: "2 \<le> r \<Longrightarrow> r \<le> 36 \<Longrightarrow> set (digits_of r n) \<subseteq> set digit_chars"
proof (induction r n rule: digits_of.induct)
  case (1 radix n)
  show ?case
  proof (cases "n < radix")
    case True
    with 1 show ?thesis by (subst digits_of.simps) (simp add: digit_char_in)
  next
    case False
    with 1 have ih: "set (digits_of radix (n div radix)) \<subseteq> set digit_chars" by simp
    have "n mod radix < 36" using 1(2,3) by (rule mod_lt_36)
    with False 1(2) ih show ?thesis by (subst digits_of.simps) (simp add: digit_char_in)
  qed
qed

lemma digits_of_inj:
  "2 \<le> r \<Longrightarrow> r \<le> 36 \<Longrightarrow> digits_of r n = digits_of r m \<Longrightarrow> n = m"
proof (induction r n arbitrary: m rule: digits_of.induct)
  case (1 radix n)
  show ?case
  proof (cases "n < radix")
    case nlt: True
    show ?thesis
    proof (cases "m < radix")
      case True
      with nlt 1(2,3,4) show ?thesis
        by (simp add: digits_of.simps [of radix n] digits_of.simps [of radix m] digit_char_inj)
    next
      case False
      with nlt 1(2,4) digits_of_nonempty [of radix "m div radix"] show ?thesis
        by (simp add: digits_of.simps [of radix n] digits_of.simps [of radix m])
    qed
  next
    case nge: False
    show ?thesis
    proof (cases "m < radix")
      case True
      with nge 1(2,4) digits_of_nonempty [of radix "n div radix"] show ?thesis
        by (simp add: digits_of.simps [of radix n] digits_of.simps [of radix m])
    next
      case False
      with nge 1(2,4) have eq: "digits_of radix (n div radix) = digits_of radix (m div radix)"
        and last: "digit_char (n mod radix) = digit_char (m mod radix)"
        by (simp_all add: digits_of.simps [of radix n] digits_of.simps [of radix m])
      have "n mod radix < 36" "m mod radix < 36" using 1(2,3) by (rule mod_lt_36)+
      with last have "n mod radix = m mod radix" by (simp add: digit_char_inj)
      moreover from nge 1(1) [OF _ 1(2) 1(3) eq] 1(2) have "n div radix = m div radix" by simp
      ultimately show ?thesis by (metis div_mult_mod_eq)
    qed
  qed
qed


lemma digits_of_avoids:
  assumes "2 \<le> r" "r \<le> 36" "c \<notin> set digit_chars" "c \<in> set s"
  shows "digits_of r n \<noteq> s"
  using digits_of_chars [OF assms(1,2), of n] assms(3,4) by auto

lemma special_chars: "CHR ''-'' \<notin> set digit_chars" "CHR ''N'' \<notin> set digit_chars"
  "CHR ''I'' \<notin> set digit_chars"
  by (simp_all add: digit_chars_def)

lemma Number_toString_inj:
  assumes r: "2 \<le> r" "r \<le> 36" and eq: "Number_toString r x = Number_toString r y"
  shows "x = y"
proof -
  note av = digits_of_avoids [OF r]
  have neg: "CHR ''-'' # digits_of r a \<noteq> digits_of r b" for a b
    using av [OF special_chars(1), of "CHR ''-'' # digits_of r a" b] by simp
  have nan: "digits_of r a \<noteq> ''NaN''" for a
    using av [OF special_chars(2)] by simp
  have inf: "digits_of r a \<noteq> ''Infinity''" for a
    using av [OF special_chars(3)] by simp
  have ninf: "digits_of r a \<noteq> ''-Infinity''" for a
    using av [OF special_chars(1)] by simp
  show ?thesis
  proof (cases x)
    case (Integer i)
    show ?thesis
    proof (cases y)
      case (Integer j)
      with \<open>x = Integer i\<close> eq neg [of "nat (- i)" "nat j"] neg [of "nat (- j)" "nat i"]
        digits_of_inj [OF r, of "nat (- i)" "nat (- j)"] digits_of_inj [OF r, of "nat i" "nat j"]
      show ?thesis
        by (auto simp: Number_toString_def split: if_splits)
    next
      case NaN
      with \<open>x = Integer i\<close> eq nan show ?thesis
        by (auto simp: Number_toString_def split: if_splits)
    next
      case Infinity
      with \<open>x = Integer i\<close> eq inf show ?thesis
        by (auto simp: Number_toString_def split: if_splits)
    next
      case NegInfinity
      with \<open>x = Integer i\<close> eq inf ninf show ?thesis
        by (auto simp: Number_toString_def split: if_splits)
    qed
  next
    case NaN
    with eq nan [of "nat _"] show ?thesis
      by (cases y) (auto simp: Number_toString_def split: if_splits)
  next
    case Infinity
    with eq inf show ?thesis
      by (cases y) (auto simp: Number_toString_def split: if_splits)
  next
    case NegInfinity
    with eq inf ninf show ?thesis
      by (cases y) (auto simp: Number_toString_def split: if_splits)
  qed
qed

lemma length_digits_le:
  "2 \<le> r \<Longrightarrow> 0 < k \<Longrightarrow> n < r ^ k \<Longrightarrow> length (digits_of r n) \<le> k"
proof (induction r n arbitrary: k rule: digits_of.induct)
  case (1 radix n)
  show ?case
  proof (cases "n < radix")
    case True
    with 1(3) show ?thesis by (simp add: digits_of.simps [of radix n])
  next
    case False
    obtain j where k: "k = Suc j" using 1(3) by (cases k) auto
    have j: "0 < j"
    proof (rule ccontr)
      assume "\<not> 0 < j"
      with k 1(4) False show False by simp
    qed
    from 1(4) k have "n < radix ^ j * radix" by (simp add: mult.commute)
    then have "n div radix < radix ^ j"
      using 1(2) by (simp add: less_mult_imp_div_less)
    with 1(1) [of j] False 1(2) j have "length (digits_of radix (n div radix)) \<le> j" by simp
    with False 1(2) k show ?thesis by (simp add: digits_of.simps [of radix n])
  qed
qed

lemma length_digits_gt:
  "2 \<le> r \<Longrightarrow> r ^ k \<le> n \<Longrightarrow> k < length (digits_of r n)"
proof (induction r n arbitrary: k rule: digits_of.induct)
  case (1 radix n)
  show ?case
  proof (cases k)
    case 0
    then show ?thesis using digits_of_nonempty [of radix n] by simp
  next
    case (Suc j)
    with 1(3) have le: "radix ^ j * radix \<le> n" by (simp add: mult.commute)
    have "radix ^ j \<ge> 1" using 1(2) by simp
    with le have nge: "\<not> n < radix"
      by (metis One_nat_def Suc_le_eq le_trans mult.commute mult.right_neutral mult_le_mono2 not_less)
    from le have "radix ^ j \<le> n div radix"
      using 1(2) by (simp add: less_eq_div_iff_mult_less_eq)
    with 1(1) [of j] nge 1(2) have "j < length (digits_of radix (n div radix))" by simp
    with nge 1(2) Suc show ?thesis by (simp add: digits_of.simps [of radix n])
  qed
qed

lemma length_digits_range:
  assumes "2 \<le> r" "r ^ k \<le> n" "n < r ^ Suc k"
  shows "length (digits_of r n) = Suc k"
  using length_digits_le [OF assms(1) _ assms(3)] length_digits_gt [OF assms(1,2)] by simp

lemma etag_Some:
  "etag \<lparr>mtime = Some m, size_stat = Some s\<rparr> = Some (Number_toString 29 m @ Number_toString 31 s)"
  by (simp add: etag_def)

lemma etag_same_mtime:
  "etag \<lparr>mtime = Some m, size_stat = Some s1\<rparr> = etag \<lparr>mtime = Some m, size_stat = Some s2\<rparr>
   \<Longrightarrow> s1 = s2"
  by (simp add: etag_Some) (rule Number_toString_inj [of 31], simp_all)

lemma etag_same_size:
  "etag \<lparr>mtime = Some m1, size_stat = Some s\<rparr> = etag \<lparr>mtime = Some m2, size_stat = Some s\<rparr>
   \<Longrightarrow> m1 = m2"
  by (simp add: etag_Some) (rule Number_toString_inj [of 29], simp_all)

lemma etag_same_length:
  assumes "length (Number_toString 29 m1) = length (Number_toString 29 m2)"
    and "etag \<lparr>mtime = Some m1, size_stat = Some s1\<rparr> = etag \<lparr>mtime = Some m2, size_stat = Some s2\<rparr>"
  shows "m1 = m2 \<and> s1 = s2"
proof -
  from assms have "Number_toString 29 m1 = Number_toString 29 m2"
    and "Number_toString 31 s1 = Number_toString 31 s2"
    by (simp_all add: etag_Some)
  then show ?thesis
    using Number_toString_inj [of 29 m1 m2] Number_toString_inj [of 31 s1 s2] by simp
qed

lemma length_realistic_mtime:
  assumes "500246412961 \<le> t" "t < 14507145975869"
  shows "length (Number_toString 29 (Integer t)) = 9"
proof -
  have p8: "(29::nat) ^ 8 = 500246412961" and p9: "(29::nat) ^ Suc 8 = 14507145975869"
    by simp_all
  from assms have "29 ^ 8 \<le> nat t" "nat t < 29 ^ Suc 8"
    unfolding p8 p9 by linarith+
  then have "length (digits_of 29 (nat t)) = Suc 8"
    by (intro length_digits_range) simp_all
  with assms(1) show ?thesis by (simp add: Number_toString_def)
qed

text \<open>
  Outside one digit length the concatenation has no separator to tell where the time
  ends: a last digit of the time can be read as a first digit of the size.
\<close>

lemma etag_collisions:
  "etag \<lparr>mtime = Some (Integer 1), size_stat = Some (Integer 31)\<rparr> = Some ''110''"
  "etag \<lparr>mtime = Some (Integer 30), size_stat = Some (Integer 0)\<rparr> = Some ''110''"
  by (simp_all add: etag_def Number_toString_def digit_char_def digit_chars_def
      digits_of.simps)

text \<open>
  C4, the statement as it is written: \<open>etag\<close> is not injective on the pairs of numbers.
  A time in September 2020 with a size of 100 bytes and a time in October 1971 with a size
  of 2983 bytes are two different stats with the same fingerprint; all four numbers are
  integers far below \<open>2^53\<close>.
\<close>

theorem etag_not_injective:
  "etag \<lparr>mtime = Some (Integer 1600000000000), size_stat = Some (Integer 100)\<rparr>
     = Some ''35lpa9ma337'' \<and>
   etag \<lparr>mtime = Some (Integer 55172413793), size_stat = Some (Integer 2983)\<rparr>
     = Some ''35lpa9ma337'' \<and>
   \<lparr>mtime = Some (Integer 1600000000000), size_stat = Some (Integer 100)\<rparr>
     \<noteq> \<lparr>mtime = Some (Integer 55172413793), size_stat = Some (Integer 2983)\<rparr>"
  by (simp add: etag_def Number_toString_def digit_char_def digit_chars_def digits_of.simps)

text \<open>
  C4, amended. \<open>etag\<close> is a function of the two fields of its argument and of nothing
  else, so equal inputs give equal strings. For times \<open>a\<close>, \<open>c\<close> and sizes \<open>b\<close>, \<open>d\<close> that
  are integers of magnitude below \<open>2^53\<close>: changing the size alone changes the
  fingerprint; changing the time alone changes the fingerprint; and two pairs that differ
  in any way have different fingerprints whenever the two times are written with equally
  many characters in base 29, which is so whenever both times lie between
  \<open>29^8 = 500246412961\<close> ms (November 1985) and \<open>29^9 = 14507145975869\<close> ms (the year
  2429). Nothing is said here about numbers with a fractional part or of magnitude
  \<open>2^53\<close> and more.
\<close>

theorem etag_distinguishes_safe_integers:
  "\<bar>a\<bar> < 9007199254740992 \<and> \<bar>b\<bar> < 9007199254740992 \<and>
   \<bar>c\<bar> < 9007199254740992 \<and> \<bar>d\<bar> < 9007199254740992 \<longrightarrow>
     (b \<noteq> d \<longrightarrow>
        etag \<lparr>mtime = Some (Integer a), size_stat = Some (Integer b)\<rparr>
          \<noteq> etag \<lparr>mtime = Some (Integer a), size_stat = Some (Integer d)\<rparr>) \<and>
     (a \<noteq> c \<longrightarrow>
        etag \<lparr>mtime = Some (Integer a), size_stat = Some (Integer b)\<rparr>
          \<noteq> etag \<lparr>mtime = Some (Integer c), size_stat = Some (Integer b)\<rparr>) \<and>
     (length (Number_toString 29 (Integer a)) = length (Number_toString 29 (Integer c)) \<and>
      (a \<noteq> c \<or> b \<noteq> d) \<longrightarrow>
        etag \<lparr>mtime = Some (Integer a), size_stat = Some (Integer b)\<rparr>
          \<noteq> etag \<lparr>mtime = Some (Integer c), size_stat = Some (Integer d)\<rparr>) \<and>
     (500246412961 \<le> a \<and> a < 14507145975869 \<and> 500246412961 \<le> c \<and> c < 14507145975869 \<and>
      (a \<noteq> c \<or> b \<noteq> d) \<longrightarrow>
        etag \<lparr>mtime = Some (Integer a), size_stat = Some (Integer b)\<rparr>
          \<noteq> etag \<lparr>mtime = Some (Integer c), size_stat = Some (Integer d)\<rparr>)"
proof -
  have one: "b \<noteq> d \<longrightarrow>
      etag \<lparr>mtime = Some (Integer a), size_stat = Some (Integer b)\<rparr>
        \<noteq> etag \<lparr>mtime = Some (Integer a), size_stat = Some (Integer d)\<rparr>"
    using etag_same_mtime [of "Integer a" "Integer b" "Integer d"] by auto
  have two: "a \<noteq> c \<longrightarrow>
      etag \<lparr>mtime = Some (Integer a), size_stat = Some (Integer b)\<rparr>
        \<noteq> etag \<lparr>mtime = Some (Integer c), size_stat = Some (Integer b)\<rparr>"
    using etag_same_size [of "Integer a" "Integer b" "Integer c"] by auto
  have three: "length (Number_toString 29 (Integer a)) = length (Number_toString 29 (Integer c)) \<and>
      (a \<noteq> c \<or> b \<noteq> d) \<longrightarrow>
      etag \<lparr>mtime = Some (Integer a), size_stat = Some (Integer b)\<rparr>
        \<noteq> etag \<lparr>mtime = Some (Integer c), size_stat = Some (Integer d)\<rparr>"
    using etag_same_length [of "Integer a" "Integer c" "Integer b" "Integer d"] by auto
  have four: "500246412961 \<le> a \<and> a < 14507145975869 \<and> 500246412961 \<le> c \<and>
      c < 14507145975869 \<and> (a \<noteq> c \<or> b \<noteq> d) \<longrightarrow>
      etag \<lparr>mtime = Some (Integer a), size_stat = Some (Integer b)\<rparr>
        \<noteq> etag \<lparr>mtime = Some (Integer c), size_stat = Some (Integer d)\<rparr>"
  proof (intro impI, elim conjE)
    assume r: "500246412961 \<le> a" "a < 14507145975869" "500246412961 \<le> c"
      "c < 14507145975869" and df: "a \<noteq> c \<or> b \<noteq> d"
    from r have "length (Number_toString 29 (Integer a)) = length (Number_toString 29 (Integer c))"
      by (simp add: length_realistic_mtime)
    with df three show
      "etag \<lparr>mtime = Some (Integer a), size_stat = Some (Integer b)\<rparr>
        \<noteq> etag \<lparr>mtime = Some (Integer c), size_stat = Some (Integer d)\<rparr>"
      by blast
  qed
  from one two three four show ?thesis by blast
qed

theorem etag_distinguishes_safe_integers_witness:
  "etag \<lparr>mtime = Some (Integer 1600000000000), size_stat = Some (Integer 100)\<rparr>
     \<noteq> etag \<lparr>mtime = Some (Integer 1600000000000), size_stat = Some (Integer 2983)\<rparr> \<and>
   etag \<lparr>mtime = Some (Integer 1600000000000), size_stat = Some (Integer 100)\<rparr>
     \<noteq> etag \<lparr>mtime = Some (Integer 1599999999999), size_stat = Some (Integer 100)\<rparr> \<and>
   etag \<lparr>mtime = Some (Integer 1600000000000), size_stat = Some (Integer 100)\<rparr>
     \<noteq> etag \<lparr>mtime = Some (Integer 1599999999999), size_stat = Some (Integer 2983)\<rparr> \<and>
   etag \<lparr>mtime = Some (Integer 5), size_stat = Some (Integer 0)\<rparr>
     \<noteq> etag \<lparr>mtime = Some (Integer 7), size_stat = Some (Integer 1)\<rparr>"
  using
    etag_distinguishes_safe_integers [of 1600000000000 100 1599999999999 2983]
    etag_distinguishes_safe_integers [of 5 0 7 1]
  by (simp add: Number_toString_def digits_of.simps)

text \<open>
  C8. When the size or the time is not a number, \<open>etag\<close> returns \<open>undefined\<close> (\<open>None\<close>),
  which is neither the empty string \<open>ETAG_DISABLED\<close> nor a failure. When both are numbers
  it returns a string, and that string is not \<open>ETAG_DISABLED\<close>. So no input at all makes
  \<open>etag\<close> return \<open>ETAG_DISABLED\<close>.
\<close>

theorem etag_undefined_or_not_disabled:
  "(mtime st = None \<or> size_stat st = None \<longrightarrow> etag st = None) \<and>
   (mtime st = Some mt \<and> size_stat st = Some sz \<longrightarrow>
      etag st = Some (Number_toString 29 mt @ Number_toString 31 sz) \<and>
      Number_toString 29 mt @ Number_toString 31 sz \<noteq> ETAG_DISABLED) \<and>
   etag st \<noteq> Some ETAG_DISABLED"
proof -
  have ne: "Number_toString r x \<noteq> []" for r x
    by (cases x) (simp_all add: Number_toString_def digits_of_nonempty)
  show ?thesis
    using ne by (auto simp: etag_def ETAG_DISABLED_def split: option.splits)
qed

theorem etag_undefined_or_not_disabled_witness:
  "etag \<lparr>mtime = None, size_stat = Some (Integer 12)\<rparr> = None \<and>
   etag \<lparr>mtime = Some (Integer 7), size_stat = None\<rparr> = None \<and>
   etag \<lparr>mtime = Some (Integer 0), size_stat = Some (Integer 0)\<rparr> = Some ''00'' \<and>
   ''00'' \<noteq> ETAG_DISABLED"
  using
    etag_undefined_or_not_disabled [of "\<lparr>mtime = None, size_stat = Some (Integer 12)\<rparr>"]
    etag_undefined_or_not_disabled [of "\<lparr>mtime = Some (Integer 7), size_stat = None\<rparr>"]
    etag_undefined_or_not_disabled
      [of "\<lparr>mtime = Some (Integer 0), size_stat = Some (Integer 0)\<rparr>" "Integer 0" "Integer 0"]
  by (simp add: Number_toString_def digits_of.simps digit_char_def digit_chars_def)

subsection \<open>Operation events\<close>

text \<open>
  The implementation signature by itself checks nothing: it is the two overloads that
  keep a target away from DELETE and require one for the other operations.
\<close>

lemma FileOperationEvent_impl_unchecked:
  "target (FileOperationEvent_impl r DELETE (Some t)) = Some t"
  "target (FileOperationEvent_impl r CREATE None) = None"
  by (simp_all add: FileOperationEvent_impl_def)

text \<open>
  C9. Every event built by a call of one of the two constructor overloads has a target
  when its operation is CREATE, MOVE or COPY and has none when its operation is DELETE.
  The fields are readonly and the only method, \<open>isOperation\<close>, returns a boolean: no
  operation of the class yields a changed event, so the property holds for as long as the
  event exists.
\<close>

theorem FileOperationEvent_target_invariant:
  "(operation (new_FileOperationEvent c) \<in> {CREATE, MOVE, COPY} \<longrightarrow>
      target (new_FileOperationEvent c) \<noteq> None) \<and>
   (operation (new_FileOperationEvent c) = DELETE \<longrightarrow>
      target (new_FileOperationEvent c) = None)"
  by (cases c) (simp_all add: FileOperationEvent_impl_def)

theorem FileOperationEvent_target_invariant_witness:
  "target (new_FileOperationEvent (New_COPY uri_a_b ''stat'')) \<noteq> None \<and>
   target (new_FileOperationEvent (New_DELETE uri_a_b :: (URI, string) FileOperationEvent_call))
     = None"
  using
    FileOperationEvent_target_invariant [of "New_COPY uri_a_b ''stat''"]
    FileOperationEvent_target_invariant
      [of "New_DELETE uri_a_b :: (URI, string) FileOperationEvent_call"]
  by (simp add: FileOperationEvent_impl_def)

subsection \<open>Change batches: membership\<close>

text \<open>
  What \<open>contains\<close> computes, for a resource that is given: some record has the asked kind
  (when a kind is asked) and, if the record is a deletion, the asked resource is equal to
  the deleted one or an ancestor of it; otherwise the two canonical strings are equal.
\<close>

lemma contains_iff:
  "contains ev (Some r) ty \<longleftrightarrow>
     (\<exists>change \<in> set (changes ev).
        (ty = None \<or> ty = Some (type change)) \<and>
        (if type change = DELETED then URI_isEqualOrParent r (resource change)
         else URI_toString r = URI_toString (resource change)))"
proof -
  have pt: "(if ty \<noteq> None \<and> Some (type change) \<noteq> ty then False
         else if type change = DELETED then URI_isEqualOrParent r (resource change)
         else URI_toString r = URI_toString (resource change))
        \<longleftrightarrow>
        ((ty = None \<or> ty = Some (type change)) \<and>
         (if type change = DELETED then URI_isEqualOrParent r (resource change)
          else URI_toString r = URI_toString (resource change)))" for change
    by (cases ty) (simp_all add: eq_commute)
  show ?thesis
    unfolding contains_def Let_def list_ex_iff option.case pt by (rule refl)
qed

lemma contains_None: "contains ev None ty = False"
  by (simp add: contains_def)

text \<open>
  C3, at the example of the specification. The batch holds a Deleted record for \<open>/a/b\<close>.
  Asked for the descendant \<open>/a/b/c\<close> with kind Deleted, \<open>contains\<close> answers false, where
  the specification and the comment of the method say true. With kind Updated the answer
  is false, as specified. Asked for the ancestor \<open>/a\<close> with kind Deleted the answer is true:
  the test runs from the asked resource to the deleted one, not from the deleted folder
  to the asked resource.
\<close>

theorem contains_deleted_parent_example:
  "contains deleted_a_b (Some uri_a_b_c) (Some DELETED) = False \<and>
   contains deleted_a_b (Some uri_a_b_c) (Some UPDATED) = False \<and>
   contains deleted_a_b (Some uri_a_b) (Some DELETED) = True \<and>
   contains deleted_a_b (Some uri_a) (Some DELETED) = True"
  by (simp add: contains_def deleted_a_b_def uri_a_def uri_a_b_def uri_a_b_c_def
      URI_isEqualOrParent_def)

subsection \<open>Duplicating a batch\<close>

text \<open>
  For any services: a \<open>copy\<close> whose promise is rejected leaves the error unhandled and
  logs nothing, a \<open>copy\<close> that throws at the call is logged; and how \<open>execute\<close> settles
  depends on the \<open>resolve\<close> calls alone, never on \<open>copy\<close>.
\<close>

lemma duplicate_one_rejected_copy:
  assumes "fileService_resolve svc (uri_parent svc uri) = Fulfilled (Some parent)"
    and "target =
      generateUniqueResourceURI svc (stat_resource svc parent) parent
        (uri_path_name svc uri @ ''_copy'') (uri_path_ext svc uri)"
    and "workingCopyFileService_copy svc uri target = Returns (Rejected e)"
  shows "duplicate_one svc uri =
     \<lparr>outcome = Fulfilled (), copy_calls = [(uri, target)], console_error = [],
      unhandled_rejections = [e]\<rparr>"
  using assms by (simp add: duplicate_one_def)

lemma duplicate_one_thrown_copy:
  assumes "fileService_resolve svc (uri_parent svc uri) = Fulfilled (Some parent)"
    and "target =
      generateUniqueResourceURI svc (stat_resource svc parent) parent
        (uri_path_name svc uri @ ''_copy'') (uri_path_ext svc uri)"
    and "workingCopyFileService_copy svc uri target = Throws e"
  shows "duplicate_one svc uri =
     \<lparr>outcome = Fulfilled (), copy_calls = [(uri, target)], console_error = [e],
      unhandled_rejections = []\<rparr>"
  using assms by (simp add: duplicate_one_def)

lemma outcome_duplicate_one:
  "outcome (duplicate_one svc uri) =
     (case fileService_resolve svc (uri_parent svc uri) of
        Rejected e \<Rightarrow> Rejected e | Fulfilled _ \<Rightarrow> Fulfilled ())"
  by (simp add: duplicate_one_def Let_def
      split: settled.splits option.splits call_result.splits)

lemma outcome_execute:
  "outcome (execute svc uris) =
     Promise_all (map (\<lambda>uri. case fileService_resolve svc (uri_parent svc uri) of
        Rejected e \<Rightarrow> Rejected e | Fulfilled _ \<Rightarrow> Fulfilled ()) uris)"
  by (simp add: execute_def Let_def comp_def outcome_duplicate_one)

lemma duplicate_one_rejecting_a:
  "duplicate_one services_rejecting_a file_a =
     \<lparr>outcome = Fulfilled (),
      copy_calls = [(file_a, \<lparr>scheme = ''file'', path = [''w'', ''a_copy.txt'']\<rparr>)],
      console_error = [], unhandled_rejections = [permission_denied]\<rparr>"
  by (simp add: duplicate_one_def services_rejecting_a_def file_a_def)

lemma duplicate_one_rejecting_b:
  "duplicate_one services_rejecting_a file_b =
     \<lparr>outcome = Fulfilled (),
      copy_calls = [(file_b, \<lparr>scheme = ''file'', path = [''w'', ''b_copy.txt'']\<rparr>)],
      console_error = [], unhandled_rejections = []\<rparr>"
  by (simp add: duplicate_one_def services_rejecting_a_def file_a_def file_b_def)

lemma duplicate_one_throwing_a:
  "duplicate_one services_throwing_a file_a =
     \<lparr>outcome = Fulfilled (),
      copy_calls = [(file_a, \<lparr>scheme = ''file'', path = [''w'', ''a_copy.txt'']\<rparr>)],
      console_error = [permission_denied], unhandled_rejections = []\<rparr>"
  by (simp add: duplicate_one_def services_throwing_a_def services_rejecting_a_def file_a_def)

lemma duplicate_one_throwing_b:
  "duplicate_one services_throwing_a file_b =
     \<lparr>outcome = Fulfilled (),
      copy_calls = [(file_b, \<lparr>scheme = ''file'', path = [''w'', ''b_copy.txt'']\<rparr>)],
      console_error = [], unhandled_rejections = []\<rparr>"
  by (simp add: duplicate_one_def services_throwing_a_def services_rejecting_a_def
      file_a_def file_b_def)

text \<open>
  When \<open>copy\<close> throws at the call, the \<open>catch\<close> logs the error and the batch goes on.
\<close>

lemma execute_throwing_a:
  "execute services_throwing_a [file_a, file_b] =
     \<lparr>outcome = Fulfilled (),
      copy_calls = [(file_a, \<lparr>scheme = ''file'', path = [''w'', ''a_copy.txt'']\<rparr>),
                    (file_b, \<lparr>scheme = ''file'', path = [''w'', ''b_copy.txt'']\<rparr>)],
      console_error = [permission_denied], unhandled_rejections = []\<rparr>"
  by (simp add: execute_def duplicate_one_throwing_a duplicate_one_throwing_b)

text \<open>
  C2, at two sibling files of which the first cannot be copied. The copy of the second
  file is still started and the promise of \<open>execute\<close> is fulfilled, as specified.
  But the failure arrives as the rejection of the promise that \<open>copy\<close> returned, which
  \<open>execute\<close> does not await: the \<open>catch\<close> does not run, nothing is passed to
  \<open>console.error\<close>, and the rejection stays unhandled.
\<close>

theorem execute_rejected_copy_not_logged:
  "execute services_rejecting_a [file_a, file_b] =
     \<lparr>outcome = Fulfilled (),
      copy_calls = [(file_a, \<lparr>scheme = ''file'', path = [''w'', ''a_copy.txt'']\<rparr>),
                    (file_b, \<lparr>scheme = ''file'', path = [''w'', ''b_copy.txt'']\<rparr>)],
      console_error = [], unhandled_rejections = [permission_denied]\<rparr>"
  by (simp add: execute_def duplicate_one_rejecting_a duplicate_one_rejecting_b)

end
